theory Spec2Isabelle
  imports Complex_Main
begin

section \<open>Values of the Python runtime\<close>

text \<open>
  A Python \<open>float\<close> is an IEEE double: a finite value (always a rational number), one of
  the two infinities, or NaN. The finite values are carried as rationals; no arithmetic
  is done on them by \<open>server.py\<close>, they are only converted and stored.
\<close>

datatype pyfloat = Finite rat | PosInf | NegInf | NaN

text \<open>
  What \<open>json.loads\<close> returns: \<open>None\<close>, a \<open>bool\<close>, an \<open>int\<close>, a \<open>float\<close>, a \<open>str\<close>,
  a \<open>list\<close> or a \<open>dict\<close> (kept as an association list, looked up with \<open>map_of\<close>).
\<close>

datatype json =
    JNull
  | JBool bool
  | JInt int
  | JFloat pyfloat
  | JStr string
  | JArr "json list"
  | JObj "(string \<times> json) list"

datatype py_error =
    JSONDecodeError
  | AttributeError
  | TypeError
  | ValueError
  | OverflowError
  | DatabaseError
  | PrintError

text \<open>
  The library calls of \<open>server.py\<close> whose results depend on text are parameters of the
  model: \<open>json.loads\<close> (\<open>None\<close> when it raises), \<open>float\<close> on a \<open>str\<close> (\<open>None\<close> for
  \<open>ValueError\<close>) and \<open>float\<close> on an \<open>int\<close> beyond \<open>2 ^ 53\<close> in magnitude, which rounds or
  raises \<open>OverflowError\<close> (\<open>None\<close>).
\<close>

record runtime =
  json_loads :: "string \<Rightarrow> json option"
  float_of_str :: "string \<Rightarrow> pyfloat option"
  float_of_big_int :: "int \<Rightarrow> pyfloat option"

text \<open>
  \<open>float(v)\<close>: a float is returned as it is, an int up to \<open>2 ^ 53\<close> in magnitude is
  converted exactly, a bool is the int 0 or 1, a string is parsed; \<open>None\<close>, lists and
  dicts raise \<open>TypeError\<close>.
\<close>

fun py_float :: "runtime \<Rightarrow> json \<Rightarrow> py_error + pyfloat" where
  "py_float lib (JFloat x) = Inr x"
| "py_float lib (JInt i) =
     (if \<bar>i\<bar> \<le> 9007199254740992 then Inr (Finite (of_int i))
      else (case float_of_big_int lib i of None \<Rightarrow> Inl OverflowError | Some x \<Rightarrow> Inr x))"
| "py_float lib (JBool b) = Inr (Finite (if b then 1 else 0))"
| "py_float lib (JStr s) =
     (case float_of_str lib s of None \<Rightarrow> Inl ValueError | Some x \<Rightarrow> Inr x)"
| "py_float lib JNull = Inl TypeError"
| "py_float lib (JArr xs) = Inl TypeError"
| "py_float lib (JObj kvs) = Inl TypeError"

text \<open>\<open>data.get(k, d)\<close>: only a dict has \<open>get\<close>; every other value raises \<open>AttributeError\<close>.\<close>

fun py_get :: "json \<Rightarrow> string \<Rightarrow> json \<Rightarrow> py_error + json" where
  "py_get (JObj kvs) k d = Inr (case map_of kvs k of None \<Rightarrow> d | Some v \<Rightarrow> v)"
| "py_get data k d = Inl AttributeError"

section \<open>Message Envelope Codec\<close>

text \<open>
  \<open>callback\<close>, lines 68-71: parse the body, then read and coerce the three fields one
  after the other; the first exception ends the decoding.
\<close>

definition decode :: "runtime \<Rightarrow> string \<Rightarrow> py_error + (pyfloat \<times> pyfloat \<times> pyfloat)" where
  "decode lib body =
     (case json_loads lib body of
        None \<Rightarrow> Inl JSONDecodeError
      | Some data \<Rightarrow>
     (case py_get data ''co2'' (JInt 0) of Inl e \<Rightarrow> Inl e | Inr v1 \<Rightarrow>
     (case py_float lib v1 of Inl e \<Rightarrow> Inl e | Inr co2 \<Rightarrow>
     (case py_get data ''humidity'' (JInt 0) of Inl e \<Rightarrow> Inl e | Inr v2 \<Rightarrow>
     (case py_float lib v2 of Inl e \<Rightarrow> Inl e | Inr humidity \<Rightarrow>
     (case py_get data ''temperature'' (JInt 0) of Inl e \<Rightarrow> Inl e | Inr v3 \<Rightarrow>
     (case py_float lib v3 of Inl e \<Rightarrow> Inl e | Inr temperature \<Rightarrow>
        Inr (co2, humidity, temperature))))))))"

section \<open>Metrics Exporter, Reading Store and their state\<close>

text \<open>The four module-level Prometheus metrics of lines 19-22.\<close>

record metrics =
  co2_gauge :: pyfloat
  humidity_gauge :: pyfloat
  temperature_gauge :: pyfloat
  data_received_counter :: nat

text \<open>
  A row of the table \<open>sensor_data\<close>. The timestamp is a reading of the wall clock
  (\<open>datetime.now()\<close>), counted in microseconds.
\<close>

type_synonym timestamp = int

record row =
  timestamp :: timestamp
  co2_ppm :: pyfloat
  humidity_percent :: pyfloat
  temperature_celsius :: pyfloat

text \<open>
  The state the pipeline works on: the metrics, the table in insertion order, and how
  many database connections have been opened and closed so far.
\<close>

record state =
  metrics :: metrics
  sensor_data :: "row list"
  conns_opened :: nat
  conns_closed :: nat

text \<open>
  How the database answers during one operation: \<open>asyncpg.connect\<close> raises, the
  statement raises, \<open>conn.close()\<close> raises, or nothing raises.
\<close>

datatype db_status = ConnectFails | StatementFails | CloseFails | DbOk

definition get_db_connection :: "db_status \<Rightarrow> state \<Rightarrow> py_error + state" where
  "get_db_connection db s =
     (if db = ConnectFails then Inl DatabaseError
      else Inr (s\<lparr>conns_opened := conns_opened s + 1\<rparr>))"

text \<open>\<open>conn.execute\<close> of the INSERT statement of lines 43-46.\<close>

definition conn_execute :: "db_status \<Rightarrow> row \<Rightarrow> state \<Rightarrow> py_error + state" where
  "conn_execute db r s =
     (if db = StatementFails then Inl DatabaseError
      else Inr (s\<lparr>sensor_data := sensor_data s @ [r]\<rparr>))"

definition conn_close :: "db_status \<Rightarrow> state \<Rightarrow> py_error + state" where
  "conn_close db s =
     (if db = CloseFails then Inl DatabaseError
      else Inr (s\<lparr>conns_closed := conns_closed s + 1\<rparr>))"

text \<open>
  \<open>ORDER BY timestamp DESC LIMIT 1\<close>: a row with the greatest timestamp. Among rows
  with equal timestamps SQL leaves the choice open; here the earliest inserted one is
  taken, and no theorem below depends on that choice.
\<close>

fun latest_row :: "row list \<Rightarrow> row option" where
  "latest_row [] = None"
| "latest_row (r # rs) =
     (case latest_row rs of
        None \<Rightarrow> Some r
      | Some m \<Rightarrow> Some (if timestamp r < timestamp m then m else r))"

definition conn_fetchrow :: "db_status \<Rightarrow> state \<Rightarrow> py_error + row option" where
  "conn_fetchrow db s =
     (if db = StatementFails then Inl DatabaseError else Inr (latest_row (sensor_data s)))"

section \<open>Ingestion Pipeline\<close>

text \<open>
  The four \<open>print\<close> calls of the pipeline, by what they print: line 49, line 51, line 77
  and line 79. A \<open>print\<close> returns or raises (a standard output that cannot encode the
  text, such as the degree sign of lines 49 and 77, or that is closed); \<open>out l\<close> tells
  whether the print of line \<open>l\<close> returns.
\<close>

datatype log_line =
    ProcessedData
  | ErrorProcessingSensorData
  | ReceivedFromRabbitMQ
  | ErrorProcessingMessage

type_synonym stdout = "log_line \<Rightarrow> bool"

text \<open>Lines 36-39: the three gauges are set, then the counter is incremented.\<close>

definition observe :: "pyfloat \<Rightarrow> pyfloat \<Rightarrow> pyfloat \<Rightarrow> state \<Rightarrow> state" where
  "observe co2 humidity temperature s =
     s\<lparr>metrics := \<lparr>co2_gauge = co2, humidity_gauge = humidity,
                    temperature_gauge = temperature,
                    data_received_counter = data_received_counter (metrics s) + 1\<rparr>\<rparr>"

text \<open>
  The handler of lines 50-51: it prints the exception. When that print raises, the
  exception leaves \<open>process_sensor_data\<close>.
\<close>

definition except_process_sensor_data :: "stdout \<Rightarrow> state \<Rightarrow> state \<times> py_error option" where
  "except_process_sensor_data out s =
     (if out ErrorProcessingSensorData then (s, None) else (s, Some PrintError))"

text \<open>
  \<open>process_sensor_data\<close>, lines 32-51: the state it leaves, and the exception that
  leaves it, if any. Every exception of the \<open>try\<close> body (the connection, the INSERT, the
  close, the print of line 49) goes to the handler.
\<close>

definition process_sensor_data ::
    "stdout \<Rightarrow> db_status \<Rightarrow> timestamp \<Rightarrow> pyfloat \<Rightarrow> pyfloat \<Rightarrow> pyfloat \<Rightarrow> state \<Rightarrow>
     state \<times> py_error option" where
  "process_sensor_data out db now co2 humidity temperature s =
     (let s1 = observe co2 humidity temperature s in
      case get_db_connection db s1 of
        Inl e \<Rightarrow> except_process_sensor_data out s1
      | Inr s2 \<Rightarrow>
          (case conn_execute db
                  \<lparr>timestamp = now, co2_ppm = co2, humidity_percent = humidity,
                   temperature_celsius = temperature\<rparr> s2 of
             Inl e \<Rightarrow> except_process_sensor_data out s2
           | Inr s3 \<Rightarrow>
               (case conn_close db s3 of
                  Inl e \<Rightarrow> except_process_sensor_data out s3
                | Inr s4 \<Rightarrow>
                    if out ProcessedData then (s4, None)
                    else except_process_sensor_data out s4)))"

text \<open>What the consumer tells the broker about a delivery; the flag is \<open>requeue\<close>.\<close>

datatype delivery = BasicAck | BasicNack bool

text \<open>
  The handler of lines 78-80, given the broker calls already made: it prints the
  exception and then rejects without requeue. When the print raises, the exception
  leaves \<open>callback\<close> before \<open>basic_nack\<close> is reached.
\<close>

definition except_callback ::
    "stdout \<Rightarrow> state \<Rightarrow> delivery list \<Rightarrow> state \<times> delivery list \<times> py_error option" where
  "except_callback out s sent =
     (if out ErrorProcessingMessage then (s, sent @ [BasicNack False], None)
      else (s, sent, Some PrintError))"

text \<open>
  \<open>callback\<close>, lines 66-80: the state it leaves, the broker calls it makes in order,
  and the exception that leaves it, if any. The \<open>try\<close> body decodes, runs
  \<open>process_sensor_data\<close>, acknowledges and prints line 77; an exception at any of
  these steps goes to the handler, also after the acknowledgement has been sent. The
  broker calls themselves are taken to return.
\<close>

definition callback ::
    "runtime \<Rightarrow> stdout \<Rightarrow> db_status \<Rightarrow> timestamp \<Rightarrow> string \<Rightarrow> state \<Rightarrow>
     state \<times> delivery list \<times> py_error option" where
  "callback lib out db now body s =
     (case decode lib body of
        Inl e \<Rightarrow> except_callback out s []
      | Inr (co2, humidity, temperature) \<Rightarrow>
          (case process_sensor_data out db now co2 humidity temperature s of
             (s1, Some e) \<Rightarrow> except_callback out s1 []
           | (s1, None) \<Rightarrow>
               if out ReceivedFromRabbitMQ then (s1, [BasicAck], None)
               else except_callback out s1 [BasicAck]))"



text \<open>\<open>get_latest_data\<close>, lines 187-210.\<close>

datatype latest_response = LatestReading row | NoData | HTTP500

definition get_latest_data :: "db_status \<Rightarrow> state \<Rightarrow> latest_response \<times> state" where
  "get_latest_data db s =
     (case get_db_connection db s of
        Inl e \<Rightarrow> (HTTP500, s)
      | Inr s1 \<Rightarrow>
          (case conn_fetchrow db s1 of
             Inl e \<Rightarrow> (HTTP500, s1)
           | Inr found \<Rightarrow>
               (case conn_close db s1 of
                  Inl e \<Rightarrow> (HTTP500, s1)
                | Inr s2 \<Rightarrow>
                    (case found of Some r \<Rightarrow> (LatestReading r, s2) | None \<Rightarrow> (NoData, s2)))))"



section \<open>Consumer Supervisor\<close>





section \<open>Sample inputs\<close>

text \<open>
  A finite excerpt of the CPython runtime, enough to run the pipeline on the message
  bodies below: each entry is what \<open>json.loads\<close> and \<open>float\<close> return on that input.
  Bodies outside the excerpt are reported as not parseable, which is right for
  \<open>not json\<close>, the only such body used.
\<close>

definition body_reading :: string where
  \<open>body_reading = ''{"co2": 550.0, "humidity": 45.0, "temperature": 22.5}''\<close>

definition body_coerced :: string where
  \<open>body_coerced = ''{"co2": "550", "humidity": true, "timestamp": 7}''\<close>

definition body_mixed :: string where
  \<open>body_mixed = ''{"co2": 550, "humidity": 45.5}''\<close>

definition body_null :: string where
  \<open>body_null = ''{"co2": null}''\<close>

definition body_word :: string where
  \<open>body_word = ''{"co2": "high"}''\<close>

definition sample_loads :: "string \<Rightarrow> json option" where
  "sample_loads body =
     (if body = body_reading then
        Some (JObj [(''co2'', JFloat (Finite 550)), (''humidity'', JFloat (Finite 45)),
                    (''temperature'', JFloat (Finite (45 / 2)))])
      else if body = body_coerced then
        Some (JObj [(''co2'', JStr ''550''), (''humidity'', JBool True),
                    (''timestamp'', JInt 7)])
      else if body = body_mixed then
        Some (JObj [(''co2'', JInt 550), (''humidity'', JFloat (Finite (91 / 2)))])
      else if body = body_null then Some (JObj [(''co2'', JNull)])
      else if body = body_word then Some (JObj [(''co2'', JStr ''high'')])
      else None)"

definition sample_runtime :: runtime where
  "sample_runtime =
     \<lparr>json_loads = sample_loads,
      float_of_str = (\<lambda>s. if s = ''550'' then Some (Finite 550) else None),
      float_of_big_int = (\<lambda>i. None)\<rparr>"

text \<open>
  Three standard outputs: one on which every print returns; an ASCII one, on which the
  prints of lines 49 and 77 raise (they hold a degree sign and a check mark) and the
  prints of the two handlers return; and a closed one, on which every print raises.
\<close>

definition utf8_stdout :: stdout where
  "utf8_stdout l = True"



text \<open>The state at process start, and a state whose table holds one row stamped 10.\<close>

definition state0 :: state where
  "state0 =
     \<lparr>metrics = \<lparr>co2_gauge = Finite 0, humidity_gauge = Finite 0,
                  temperature_gauge = Finite 0, data_received_counter = 0\<rparr>,
      sensor_data = [], conns_opened = 0, conns_closed = 0\<rparr>"


section \<open>Evaluation of the samples\<close>

lemma decode_body_reading:
  "decode sample_runtime body_reading = Inr (Finite 550, Finite 45, Finite (45 / 2))"
  by (simp add: decode_def sample_runtime_def sample_loads_def)


lemma decode_body_coerced:
  "decode sample_runtime body_coerced = Inr (Finite 550, Finite 1, Finite 0)"
  by (simp add: decode_def sample_runtime_def sample_loads_def body_reading_def
      body_coerced_def)

lemma loads_body_coerced:
  "json_loads sample_runtime body_coerced =
     Some (JObj [(''co2'', JStr ''550''), (''humidity'', JBool True), (''timestamp'', JInt 7)])"
  by (simp add: sample_runtime_def sample_loads_def body_reading_def body_coerced_def)

lemma loads_body_mixed:
  "json_loads sample_runtime body_mixed =
     Some (JObj [(''co2'', JInt 550), (''humidity'', JFloat (Finite (91 / 2)))])"
  by (simp add: sample_runtime_def sample_loads_def body_reading_def body_coerced_def
      body_mixed_def)

lemma loads_body_null:
  "json_loads sample_runtime body_null = Some (JObj [(''co2'', JNull)])"
  by (simp add: sample_runtime_def sample_loads_def body_reading_def body_coerced_def
      body_mixed_def body_null_def)

lemma loads_body_word:
  "json_loads sample_runtime body_word = Some (JObj [(''co2'', JStr ''high'')])"
  by (simp add: sample_runtime_def sample_loads_def body_reading_def body_coerced_def
      body_mixed_def body_null_def body_word_def)

section \<open>Facts about the pipeline\<close>


lemma fst_process_sensor_data:
  "fst (process_sensor_data out db now co2 humidity temperature s) =
     (case db of
        ConnectFails \<Rightarrow> observe co2 humidity temperature s
      | StatementFails \<Rightarrow>
          (observe co2 humidity temperature s)\<lparr>conns_opened := conns_opened s + 1\<rparr>
      | CloseFails \<Rightarrow>
          (observe co2 humidity temperature s)
            \<lparr>conns_opened := conns_opened s + 1,
             sensor_data := sensor_data s @
               [\<lparr>timestamp = now, co2_ppm = co2, humidity_percent = humidity,
                 temperature_celsius = temperature\<rparr>]\<rparr>
      | DbOk \<Rightarrow>
          (observe co2 humidity temperature s)
            \<lparr>conns_opened := conns_opened s + 1,
             sensor_data := sensor_data s @
               [\<lparr>timestamp = now, co2_ppm = co2, humidity_percent = humidity,
                 temperature_celsius = temperature\<rparr>],
             conns_closed := conns_closed s + 1\<rparr>)"
  by (cases db)
    (simp_all add: process_sensor_data_def except_process_sensor_data_def observe_def
      get_db_connection_def conn_execute_def conn_close_def Let_def)


lemma metrics_process_sensor_data:
  "metrics (fst (process_sensor_data out db now co2 humidity temperature s)) =
     \<lparr>co2_gauge = co2, humidity_gauge = humidity, temperature_gauge = temperature,
      data_received_counter = data_received_counter (metrics s) + 1\<rparr>"
  by (cases db) (simp_all add: fst_process_sensor_data observe_def)

lemma sensor_data_process_sensor_data:
  "sensor_data (fst (process_sensor_data out db now co2 humidity temperature s)) =
     (if db = ConnectFails \<or> db = StatementFails then sensor_data s
      else sensor_data s @ [\<lparr>timestamp = now, co2_ppm = co2, humidity_percent = humidity,
                              temperature_celsius = temperature\<rparr>])"
  by (cases db) (simp_all add: fst_process_sensor_data observe_def)

lemma conns_process_sensor_data:
  "conns_opened (fst (process_sensor_data out db now co2 humidity temperature s)) =
     (if db = ConnectFails then conns_opened s else conns_opened s + 1)"
  "conns_closed (fst (process_sensor_data out db now co2 humidity temperature s)) =
     (if db = DbOk then conns_closed s + 1 else conns_closed s)"
  by (cases db; simp add: fst_process_sensor_data observe_def)+

lemma get_latest_data_eq:
  "get_latest_data db s =
     (case db of
        ConnectFails \<Rightarrow> (HTTP500, s)
      | StatementFails \<Rightarrow> (HTTP500, s\<lparr>conns_opened := conns_opened s + 1\<rparr>)
      | CloseFails \<Rightarrow> (HTTP500, s\<lparr>conns_opened := conns_opened s + 1\<rparr>)
      | DbOk \<Rightarrow>
          ((case latest_row (sensor_data s) of Some r \<Rightarrow> LatestReading r | None \<Rightarrow> NoData),
           s\<lparr>conns_opened := conns_opened s + 1, conns_closed := conns_closed s + 1\<rparr>))"
  by (cases db)
    (simp_all add: get_latest_data_def get_db_connection_def conn_fetchrow_def conn_close_def
      split: option.splits)

lemma callback_malformed:
  assumes "decode lib body = Inl e"
  shows "callback lib out db now body s =
           (s, if out ErrorProcessingMessage then [BasicNack False] else [],
            if out ErrorProcessingMessage then None else Some PrintError)"
  using assms by (simp add: callback_def except_callback_def)

lemma fst_callback_well_formed:
  assumes "decode lib body = Inr (co2, humidity, temperature)"
  shows "fst (callback lib out db now body s) =
           fst (process_sensor_data out db now co2 humidity temperature s)"
  using assms
  by (cases "process_sensor_data out db now co2 humidity temperature s")
    (simp add: callback_def except_callback_def split: option.splits)



section \<open>Malformed messages\<close>




section \<open>The processed counter\<close>

text \<open>
  C9. For a message that decodes, the counter grows by one whatever the database does
  afterwards: the metrics are updated before the store is touched, and a failure of the
  store is caught inside \<open>process_sensor_data\<close>. The counter counts decoded messages
  received, not rows persisted.
\<close>

theorem counter_counts_received:
  assumes "decode lib body = Inr (co2, humidity, temperature)"
  shows "data_received_counter (metrics (fst (callback lib out db now body s))) =
           data_received_counter (metrics s) + 1"
  by (simp add: fst_callback_well_formed [OF assms] metrics_process_sensor_data)

theorem counter_counts_received_witness:
  "data_received_counter
     (metrics (fst (callback sample_runtime utf8_stdout StatementFails 5 body_reading state0)))
     = 1
   \<and> sensor_data (fst (callback sample_runtime utf8_stdout StatementFails 5 body_reading state0))
     = []"
  using counter_counts_received
    [OF decode_body_reading, of utf8_stdout StatementFails 5 state0]
  by (simp add: fst_callback_well_formed [OF decode_body_reading]
      sensor_data_process_sensor_data state0_def)

section \<open>Store failures\<close>




section \<open>Successful ingestion\<close>




section \<open>Storage connections\<close>

text \<open>
  C5, as the code has it. Each store operation (the append of \<open>process_sensor_data\<close>
  and the lookup of \<open>get_latest_data\<close>) opens one connection of its own and closes it
  when the operation succeeds; when the connection cannot be opened there is nothing to
  close; when the statement fails on an open connection, the \<open>close\<close> call is skipped
  and the connection stays open.
\<close>

theorem connection_scoped_to_operation:
  "(db = DbOk \<longrightarrow>
      conns_opened (fst (process_sensor_data out db now co2 humidity temperature s))
        = conns_opened s + 1
    \<and> conns_closed (fst (process_sensor_data out db now co2 humidity temperature s))
        = conns_closed s + 1
    \<and> conns_opened (snd (get_latest_data db s)) = conns_opened s + 1
    \<and> conns_closed (snd (get_latest_data db s)) = conns_closed s + 1)
   \<and> (db = ConnectFails \<longrightarrow>
      conns_opened (fst (process_sensor_data out db now co2 humidity temperature s))
        = conns_opened s
    \<and> conns_closed (fst (process_sensor_data out db now co2 humidity temperature s))
        = conns_closed s
    \<and> conns_opened (snd (get_latest_data db s)) = conns_opened s
    \<and> conns_closed (snd (get_latest_data db s)) = conns_closed s)
   \<and> (db = StatementFails \<longrightarrow>
      conns_opened (fst (process_sensor_data out db now co2 humidity temperature s))
        = conns_opened s + 1
    \<and> conns_closed (fst (process_sensor_data out db now co2 humidity temperature s))
        = conns_closed s
    \<and> conns_opened (snd (get_latest_data db s)) = conns_opened s + 1
    \<and> conns_closed (snd (get_latest_data db s)) = conns_closed s)"
  by (simp add: conns_process_sensor_data get_latest_data_eq)

theorem connection_scoped_to_operation_witness:
  "conns_opened
     (fst (process_sensor_data utf8_stdout DbOk 5 (Finite 550) (Finite 45) (Finite 22) state0))
     = 1
   \<and> conns_closed
     (fst (process_sensor_data utf8_stdout DbOk 5 (Finite 550) (Finite 45) (Finite 22) state0))
     = 1
   \<and> conns_opened (snd (get_latest_data DbOk state0)) = 1
   \<and> conns_closed (snd (get_latest_data DbOk state0)) = 1"
  using connection_scoped_to_operation
    [of DbOk utf8_stdout 5 "Finite 550" "Finite 45" "Finite 22" state0]
  by (simp add: state0_def)

text \<open>
  From the initial state, a failing INSERT and a failing SELECT each leave one
  connection opened and none closed.
\<close>

theorem connection_released_on_failure_counterexample:
  "conns_opened
     (fst (process_sensor_data utf8_stdout StatementFails 5 (Finite 550) (Finite 45)
            (Finite 22) state0)) = 1
   \<and> conns_closed
     (fst (process_sensor_data utf8_stdout StatementFails 5 (Finite 550) (Finite 45)
            (Finite 22) state0)) = 0
   \<and> conns_opened (snd (get_latest_data StatementFails state0)) = 1
   \<and> conns_closed (snd (get_latest_data StatementFails state0)) = 0"
  by (simp add: conns_process_sensor_data get_latest_data_eq state0_def)

section \<open>Timestamps\<close>

text \<open>
  C8. Whatever the message body, handling it leaves the table as it was or appends one
  row whose timestamp is the clock reading taken by the pipeline; and when the message
  decodes and the INSERT goes through, the appended row is that clock reading with the
  three decoded values. Nothing of the body reaches the timestamp column.
\<close>

theorem stored_timestamp_is_ingestion_clock:
  "(sensor_data (fst (callback lib out db now body s)) = sensor_data s
    \<or> (\<exists>r. sensor_data (fst (callback lib out db now body s)) = sensor_data s @ [r]
            \<and> timestamp r = now))
   \<and> (\<forall>co2 humidity temperature.
        decode lib body = Inr (co2, humidity, temperature) \<and> (db = DbOk \<or> db = CloseFails) \<longrightarrow>
        sensor_data (fst (callback lib out db now body s)) =
          sensor_data s @ [\<lparr>timestamp = now, co2_ppm = co2, humidity_percent = humidity,
                             temperature_celsius = temperature\<rparr>])"
proof (cases "decode lib body")
  case (Inl e)
  then show ?thesis by (simp add: callback_malformed)
next
  case (Inr x)
  obtain co2 humidity temperature where "x = (co2, humidity, temperature)"
    by (cases x) auto
  with Inr have "decode lib body = Inr (co2, humidity, temperature)" by simp
  then show ?thesis
    by (auto simp add: fst_callback_well_formed sensor_data_process_sensor_data)
qed

text \<open>The sample body carries a \<open>timestamp\<close> key of its own (7); the row is stamped 5.\<close>

theorem stored_timestamp_is_ingestion_clock_witness:
  "sensor_data (fst (callback sample_runtime utf8_stdout DbOk 5 body_coerced state0)) =
     [\<lparr>timestamp = 5, co2_ppm = Finite 550, humidity_percent = Finite 1,
       temperature_celsius = Finite 0\<rparr>]"
  using stored_timestamp_is_ingestion_clock
    [of sample_runtime utf8_stdout DbOk 5 body_coerced state0]
    decode_body_coerced
  by (simp add: state0_def)

section \<open>Facts about the codec and the supervisor\<close>

lemma decode_dict:
  assumes "json_loads lib body = Some (JObj kvs)"
  shows "decode lib body =
     (case py_float lib (case map_of kvs ''co2'' of None \<Rightarrow> JInt 0 | Some v \<Rightarrow> v) of
        Inl e \<Rightarrow> Inl e
      | Inr co2 \<Rightarrow>
     (case py_float lib (case map_of kvs ''humidity'' of None \<Rightarrow> JInt 0 | Some v \<Rightarrow> v) of
        Inl e \<Rightarrow> Inl e
      | Inr humidity \<Rightarrow>
     (case py_float lib (case map_of kvs ''temperature'' of None \<Rightarrow> JInt 0 | Some v \<Rightarrow> v) of
        Inl e \<Rightarrow> Inl e
      | Inr temperature \<Rightarrow> Inr (co2, humidity, temperature))))"
  using assms by (simp add: decode_def split: sum.splits)

text \<open>What \<open>float\<close> makes of a field that is absent, a float, an int, a bool or a string.\<close>

lemma py_float_field:
  assumes "(m = None \<and> x = Finite 0)
         \<or> m = Some (JFloat x)
         \<or> (\<exists>i. m = Some (JInt i) \<and> \<bar>i\<bar> \<le> 9007199254740992 \<and> x = Finite (of_int i))
         \<or> (\<exists>i. m = Some (JInt i) \<and> 9007199254740992 < \<bar>i\<bar> \<and> float_of_big_int lib i = Some x)
         \<or> (\<exists>b. m = Some (JBool b) \<and> x = Finite (if b then 1 else 0))
         \<or> (\<exists>t. m = Some (JStr t) \<and> float_of_str lib t = Some x)"
  shows "py_float lib (case m of None \<Rightarrow> JInt 0 | Some v \<Rightarrow> v) = Inr x"
  using assms by auto

text \<open>The values \<open>float\<close> refuses.\<close>

lemma py_float_refused:
  "(\<exists>e. py_float lib (case m of None \<Rightarrow> JInt 0 | Some v \<Rightarrow> v) = Inl e) \<longleftrightarrow>
     m = Some JNull
   \<or> (\<exists>xs. m = Some (JArr xs))
   \<or> (\<exists>d. m = Some (JObj d))
   \<or> (\<exists>t. m = Some (JStr t) \<and> float_of_str lib t = None)
   \<or> (\<exists>i. m = Some (JInt i) \<and> 9007199254740992 < \<bar>i\<bar> \<and> float_of_big_int lib i = None)"
proof (cases m)
  case None
  then show ?thesis by simp
next
  case (Some v)
  then show ?thesis by (cases v) (auto split: option.splits)
qed

lemma decode_refused:
  assumes "json_loads lib body = Some (JObj kvs)"
  shows "(\<exists>e. decode lib body = Inl e) \<longleftrightarrow>
     (\<exists>e. py_float lib (case map_of kvs ''co2'' of None \<Rightarrow> JInt 0 | Some v \<Rightarrow> v) = Inl e)
   \<or> (\<exists>e. py_float lib (case map_of kvs ''humidity'' of None \<Rightarrow> JInt 0 | Some v \<Rightarrow> v) = Inl e)
   \<or> (\<exists>e. py_float lib (case map_of kvs ''temperature'' of None \<Rightarrow> JInt 0 | Some v \<Rightarrow> v)
          = Inl e)"
  by (auto simp add: decode_dict [OF assms] split: sum.splits)


section \<open>The supervisor loop\<close>




section \<open>Decoding\<close>

text \<open>
  C7. For a body that parses to a dict, \<open>decode\<close> returns the triple (co2, humidity,
  temperature) in which each component is the float of its field: 0.0 when the key is
  absent, the float itself when the field is a float, the float of the same value when
  the field is an int (exactly, up to \<open>2 ^ 53\<close> in magnitude; as the runtime rounds it
  beyond), 1.0 or 0.0 when it is a boolean, and the parsed value when it is a string that
  \<open>float\<close> parses.
\<close>

theorem decode_coerces_fields_default_zero:
  assumes "json_loads lib body = Some (JObj kvs)"
      and "\<forall>k\<in>{''co2'', ''humidity'', ''temperature''}.
             (map_of kvs k = None \<and> f k = Finite 0)
           \<or> map_of kvs k = Some (JFloat (f k))
           \<or> (\<exists>i. map_of kvs k = Some (JInt i) \<and> \<bar>i\<bar> \<le> 9007199254740992
                  \<and> f k = Finite (of_int i))
           \<or> (\<exists>i. map_of kvs k = Some (JInt i) \<and> 9007199254740992 < \<bar>i\<bar>
                  \<and> float_of_big_int lib i = Some (f k))
           \<or> (\<exists>b. map_of kvs k = Some (JBool b) \<and> f k = Finite (if b then 1 else 0))
           \<or> (\<exists>t. map_of kvs k = Some (JStr t) \<and> float_of_str lib t = Some (f k))"
  shows "decode lib body = Inr (f ''co2'', f ''humidity'', f ''temperature'')"
proof -
  have "py_float lib (case map_of kvs k of None \<Rightarrow> JInt 0 | Some v \<Rightarrow> v) = Inr (f k)"
    if "k \<in> {''co2'', ''humidity'', ''temperature''}" for k
    using assms(2) that by (intro py_float_field) (rule bspec)
  then show ?thesis by (simp add: decode_dict [OF assms(1)])
qed

text \<open>
  The body \<open>{"co2": 550, "humidity": 45.5}\<close>: an int, a float and an absent key give
  (550.0, 45.5, 0.0).
\<close>

theorem decode_coerces_fields_default_zero_witness:
  "decode sample_runtime body_mixed = Inr (Finite 550, Finite (91 / 2), Finite 0)"
proof -
  let ?f = "\<lambda>k. if k = ''co2'' then Finite 550
                 else if k = ''humidity'' then Finite (91 / 2) else Finite 0"
  have "decode sample_runtime body_mixed = Inr (?f ''co2'', ?f ''humidity'', ?f ''temperature'')"
    by (rule decode_coerces_fields_default_zero [OF loads_body_mixed]) simp
  then show ?thesis by simp
qed

text \<open>
  C10. For a body that parses to a dict, \<open>decode\<close> accepts every arrangement of fields
  that \<open>float\<close> accepts (an absent key, a float, an int, a boolean, a string that \<open>float\<close>
  parses) and returns the coerced reading: the parsed value of a numeric string, 1.0 or
  0.0 for a boolean. It rejects the dict exactly when one of the three fields is
  \<open>null\<close>, a list, a dict, a string that \<open>float\<close> does not parse or an int that
  overflows.
\<close>

theorem decode_accepts_coercible_fields:
  assumes "json_loads lib body = Some (JObj kvs)"
  shows "((\<forall>k\<in>{''co2'', ''humidity'', ''temperature''}.
             (map_of kvs k = None \<and> f k = Finite 0)
           \<or> map_of kvs k = Some (JFloat (f k))
           \<or> (\<exists>i. map_of kvs k = Some (JInt i) \<and> \<bar>i\<bar> \<le> 9007199254740992
                  \<and> f k = Finite (of_int i))
           \<or> (\<exists>i. map_of kvs k = Some (JInt i) \<and> 9007199254740992 < \<bar>i\<bar>
                  \<and> float_of_big_int lib i = Some (f k))
           \<or> (\<exists>b. map_of kvs k = Some (JBool b) \<and> f k = Finite (if b then 1 else 0))
           \<or> (\<exists>t. map_of kvs k = Some (JStr t) \<and> float_of_str lib t = Some (f k)))
          \<longrightarrow> decode lib body = Inr (f ''co2'', f ''humidity'', f ''temperature''))
       \<and> ((\<exists>e. decode lib body = Inl e) \<longleftrightarrow>
           (\<exists>k\<in>{''co2'', ''humidity'', ''temperature''}.
               map_of kvs k = Some JNull
             \<or> (\<exists>xs. map_of kvs k = Some (JArr xs))
             \<or> (\<exists>d. map_of kvs k = Some (JObj d))
             \<or> (\<exists>t. map_of kvs k = Some (JStr t) \<and> float_of_str lib t = None)
             \<or> (\<exists>i. map_of kvs k = Some (JInt i) \<and> 9007199254740992 < \<bar>i\<bar>
                    \<and> float_of_big_int lib i = None)))"
proof (intro conjI impI)
  assume fields: "\<forall>k\<in>{''co2'', ''humidity'', ''temperature''}.
             (map_of kvs k = None \<and> f k = Finite 0)
           \<or> map_of kvs k = Some (JFloat (f k))
           \<or> (\<exists>i. map_of kvs k = Some (JInt i) \<and> \<bar>i\<bar> \<le> 9007199254740992
                  \<and> f k = Finite (of_int i))
           \<or> (\<exists>i. map_of kvs k = Some (JInt i) \<and> 9007199254740992 < \<bar>i\<bar>
                  \<and> float_of_big_int lib i = Some (f k))
           \<or> (\<exists>b. map_of kvs k = Some (JBool b) \<and> f k = Finite (if b then 1 else 0))
           \<or> (\<exists>t. map_of kvs k = Some (JStr t) \<and> float_of_str lib t = Some (f k))"
  have "py_float lib (case map_of kvs k of None \<Rightarrow> JInt 0 | Some v \<Rightarrow> v) = Inr (f k)"
    if "k \<in> {''co2'', ''humidity'', ''temperature''}" for k
    using fields that by (intro py_float_field) (rule bspec)
  then show "decode lib body = Inr (f ''co2'', f ''humidity'', f ''temperature'')"
    by (simp add: decode_dict [OF assms])
next
  show "(\<exists>e. decode lib body = Inl e) \<longleftrightarrow>
           (\<exists>k\<in>{''co2'', ''humidity'', ''temperature''}.
               map_of kvs k = Some JNull
             \<or> (\<exists>xs. map_of kvs k = Some (JArr xs))
             \<or> (\<exists>d. map_of kvs k = Some (JObj d))
             \<or> (\<exists>t. map_of kvs k = Some (JStr t) \<and> float_of_str lib t = None)
             \<or> (\<exists>i. map_of kvs k = Some (JInt i) \<and> 9007199254740992 < \<bar>i\<bar>
                    \<and> float_of_big_int lib i = None))"
    unfolding decode_refused [OF assms] py_float_refused by simp
qed

text \<open>
  The body \<open>{"co2": "550", "humidity": true, "timestamp": 7}\<close> is accepted as
  (550.0, 1.0, 0.0); the bodies \<open>{"co2": null}\<close> and \<open>{"co2": "high"}\<close> are rejected.
\<close>

theorem decode_accepts_coercible_fields_witness:
  "decode sample_runtime body_coerced = Inr (Finite 550, Finite 1, Finite 0)
   \<and> (\<exists>e. decode sample_runtime body_null = Inl e)
   \<and> (\<exists>e. decode sample_runtime body_word = Inl e)"
proof -
  let ?f = "\<lambda>k. if k = ''co2'' then Finite 550
                 else if k = ''humidity'' then Finite 1 else Finite 0"
  have "decode sample_runtime body_coerced =
          Inr (?f ''co2'', ?f ''humidity'', ?f ''temperature'')"
    by (rule decode_accepts_coercible_fields
          [OF loads_body_coerced, of ?f, THEN conjunct1, rule_format])
       (auto simp add: sample_runtime_def)
  moreover have "\<exists>e. decode sample_runtime body_null = Inl e"
    unfolding decode_accepts_coercible_fields [OF loads_body_null, THEN conjunct2]
    by simp
  moreover have "\<exists>e. decode sample_runtime body_word = Inl e"
    unfolding decode_accepts_coercible_fields [OF loads_body_word, THEN conjunct2]
    by (simp add: sample_runtime_def)
  ultimately show ?thesis by simp
qed

end
